theory Spec2Isabelle
  imports Main "HOL-Library.Sublist"
begin

section \<open>JavaScript text\<close>

text \<open>
  Message text is a list of code units. The model covers the code units below 256
  (ASCII and Latin-1), one \<^typ>\<open>char\<close> each, and gives \<open>toLowerCase\<close>, \<open>trim\<close>,
  \<open>includes\<close> and \<open>substr\<close> the meaning \<open>String.prototype\<close> gives them on such text.
\<close>

definition toLowerUnit :: "char \<Rightarrow> char" where
  \<comment> \<open>\<open>A\<close>..\<open>Z\<close> and the Latin-1 capitals (0xC0..0xDE without the multiplication sign 0xD7)
      move up by 32; every other code unit below 256 is its own lower case.\<close>
  "toLowerUnit c =
     (let n = (of_char c :: nat)
      in if (65 \<le> n \<and> n \<le> 90) \<or> (192 \<le> n \<and> n \<le> 222 \<and> n \<noteq> 215)
         then char_of (n + 32) else c)"

definition toLowerCase :: "string \<Rightarrow> string" where
  "toLowerCase s = map toLowerUnit s"

fun startsWith :: "string \<Rightarrow> string \<Rightarrow> bool" where
  "startsWith s [] = True"
| "startsWith [] (k # ks) = False"
| "startsWith (c # cs) (k # ks) = (c = k \<and> startsWith cs ks)"

fun str_includes :: "string \<Rightarrow> string \<Rightarrow> bool" where
  \<comment> \<open>\<open>s.includes(k)\<close>: \<open>k\<close> occurs in \<open>s\<close> at some position.\<close>
  "str_includes [] k = (k = [])"
| "str_includes (c # cs) k = (startsWith (c # cs) k \<or> str_includes cs k)"

definition isWhiteSpace :: "char \<Rightarrow> bool" where
  \<comment> \<open>The white space and line terminators that \<open>trim\<close> strips, below 256:
      TAB, LF, VT, FF, CR, SP and NBSP.\<close>
  "isWhiteSpace c = ((of_char c :: nat) \<in> {9, 10, 11, 12, 13, 32, 160})"

definition trim :: "string \<Rightarrow> string" where
  "trim s = rev (dropWhile isWhiteSpace (rev (dropWhile isWhiteSpace s)))"

definition substr :: "nat \<Rightarrow> nat \<Rightarrow> string \<Rightarrow> string" where
  \<comment> \<open>\<open>s.substr(start, len)\<close> for a start that is not negative: at most \<open>len\<close> code units
      from position \<open>start\<close>, fewer when the text ends before.\<close>
  "substr start len s = take len (drop start s)"

section \<open>The conversation service: canned replies\<close>

definition supportReply :: string where
  "supportReply = ''I'm here to help! I can assist you with technical issues, product questions, or general support. What would you like to know?''"

definition paymentReply :: string where
  "paymentReply = ''I understand you're having payment issues. Let me help you troubleshoot. Can you tell me more about what's happening?''"

definition technicalReply :: string where
  "technicalReply = ''I see you're experiencing an issue. I've detected some technical problems on this page. Let me help you resolve them.''"

definition featureReply :: string where
  "featureReply = ''Thank you for your feature request! I'll make sure this gets to our development team. Can you provide more details?''"

definition bugReply :: string where
  "bugReply = ''I'm sorry to hear you're experiencing a bug. Let me help you report this issue. Can you describe what happened?''"

definition genericReply :: string where
  "genericReply = ''Thank you for your message. I'm here to help improve your experience. Is there anything specific you'd like to discuss?''"

definition getFallbackResponse :: "string \<Rightarrow> string" where
  "getFallbackResponse message =
     (let lowerMessage = toLowerCase message
      in if str_includes lowerMessage ''help'' \<or> str_includes lowerMessage ''support''
           then supportReply
         else if str_includes lowerMessage ''payment'' \<or> str_includes lowerMessage ''billing''
           then paymentReply
         else if str_includes lowerMessage ''error'' \<or> str_includes lowerMessage ''problem''
           then technicalReply
         else if str_includes lowerMessage ''feature'' \<or> str_includes lowerMessage ''request''
           then featureReply
         else if str_includes lowerMessage ''bug'' \<or> str_includes lowerMessage ''issue''
           then bugReply
         else genericReply)"

subsection \<open>The rule table as the specification words it\<close>

definition rule_table :: "(string list \<times> string) list" where
  \<comment> \<open>The fixed ordered rule table: the keywords of a rule and its reply.\<close>
  "rule_table =
     [([''help'', ''support''], supportReply),
      ([''payment'', ''billing''], paymentReply),
      ([''error'', ''problem''], technicalReply),
      ([''feature'', ''request''], featureReply),
      ([''bug'', ''issue''], bugReply)]"

definition rule_matches :: "string \<Rightarrow> string list \<times> string \<Rightarrow> bool" where
  \<comment> \<open>Case-insensitive keyword matching: some keyword of the rule occurs in the lowered text.\<close>
  "rule_matches message rule = list_ex (str_includes (toLowerCase message)) (fst rule)"

definition first_match_reply :: "string \<Rightarrow> string" where
  \<comment> \<open>First match wins; no match gives the generic acknowledgment.\<close>
  "first_match_reply message =
     (case find (rule_matches message) rule_table of
        Some rule \<Rightarrow> snd rule
      | None \<Rightarrow> genericReply)"

definition rule_keywords :: "string list" where
  "rule_keywords = concat (map fst rule_table)"

section \<open>JavaScript values and the outcome of a request\<close>

datatype jsval =
    JUndefined
  | JNull
  | JBool bool
  | JNum int
  | JStr string
  | JArr "jsval list"
  | JObj "(string \<times> jsval) list"

text \<open>
  A parsed JSON body is a \<^typ>\<open>jsval\<close>. \<open>JObj\<close> lists the members of an object in the
  order of the body text. Of a number the service only uses whether it is zero, so numbers
  are kept as integers. \<open>JUndefined\<close> is what reading a missing property gives.
\<close>

fun truthy :: "jsval \<Rightarrow> bool" where
  "truthy JUndefined = False"
| "truthy JNull = False"
| "truthy (JBool b) = b"
| "truthy (JNum n) = (n \<noteq> 0)"
| "truthy (JStr s) = (s \<noteq> [])"
| "truthy (JArr xs) = True"
| "truthy (JObj kvs) = True"

datatype js_error = NetworkError | HttpError nat | SyntaxError | TypeError

fun member :: "jsval \<Rightarrow> string \<Rightarrow> jsval" where
  \<comment> \<open>The value of \<open>data.k\<close> for the property names the service reads (\<open>response\<close>,
      \<open>message\<close>, \<open>welcome_message\<close>), which no prototype defines: the member of an object
      (the last one, when the body repeats a key), \<open>undefined\<close> on anything else.\<close>
  "member (JObj kvs) k = (case map_of (rev kvs) k of None \<Rightarrow> JUndefined | Some v \<Rightarrow> v)"
| "member v k = JUndefined"

definition getProp :: "jsval \<Rightarrow> string \<Rightarrow> js_error + jsval" where
  \<comment> \<open>Reading a property of \<open>null\<close> or \<open>undefined\<close> throws a TypeError.\<close>
  "getProp data k = (if data = JNull \<or> data = JUndefined then Inl TypeError else Inr (member data k))"

datatype body = Malformed | Parsed jsval

datatype fetch_result = Rejected | Response nat body

text \<open>
  What \<open>fetch\<close> gives one request: \<open>Rejected\<close> when the network fails, or a response
  with its status and body; \<open>Malformed\<close> is a body on which \<open>response.json()\<close> rejects.
\<close>

definition ok :: "nat \<Rightarrow> bool" where
  \<comment> \<open>\<open>response.ok\<close>: the status is in the success range.\<close>
  "ok status = (200 \<le> status \<and> status \<le> 299)"

fun fetch_failed :: "fetch_result \<Rightarrow> bool" where
  \<comment> \<open>Network failure, a status outside the success range, or a body that is not JSON.\<close>
  "fetch_failed Rejected = True"
| "fetch_failed (Response status b) = (\<not> ok status \<or> b = Malformed)"

section \<open>The conversation service: remote operations\<close>

definition couldNotProcess :: string where
  "couldNotProcess = ''I'm sorry, I couldn't process your request.''"

definition defaultGreeting :: string where
  "defaultGreeting = ''Hello! I'm your AI assistant. How can I help you today?''"

text \<open>
  Each operation is its \<open>try\<close> block, which may throw, and the operation itself, which is
  the block under its \<open>catch\<close>. The request payload (session id, context, timestamp) does
  not influence what is returned and is left out; the logger calls are no-ops here.
\<close>

definition sendMessage_try :: "string \<Rightarrow> fetch_result \<Rightarrow> js_error + jsval" where
  "sendMessage_try message r =
     (case r of
        Rejected \<Rightarrow> Inl NetworkError
      | Response status b \<Rightarrow>
          if \<not> ok status then Inl (HttpError status)
          else (case b of
                  Malformed \<Rightarrow> Inl SyntaxError
                | Parsed data \<Rightarrow>
                    (case getProp data ''response'' of
                       Inl e \<Rightarrow> Inl e
                     | Inr x \<Rightarrow>
                         if truthy x then Inr x
                         else (case getProp data ''message'' of
                                 Inl e \<Rightarrow> Inl e
                               | Inr y \<Rightarrow>
                                   if truthy y then Inr y
                                   else Inr (JStr couldNotProcess)))))"

definition service_sendMessage :: "string \<Rightarrow> fetch_result \<Rightarrow> js_error + jsval" where
  "service_sendMessage message r =
     (case sendMessage_try message r of
        Inr v \<Rightarrow> Inr v
      | Inl error \<Rightarrow> Inr (JStr (getFallbackResponse message)))"

definition startConversation_try :: "fetch_result \<Rightarrow> js_error + jsval" where
  "startConversation_try r =
     (case r of
        Rejected \<Rightarrow> Inl NetworkError
      | Response status b \<Rightarrow>
          if \<not> ok status then Inl (HttpError status)
          else (case b of
                  Malformed \<Rightarrow> Inl SyntaxError
                | Parsed data \<Rightarrow>
                    (case getProp data ''welcome_message'' of
                       Inl e \<Rightarrow> Inl e
                     | Inr w \<Rightarrow> if truthy w then Inr w else Inr (JStr defaultGreeting))))"

definition service_startConversation :: "fetch_result \<Rightarrow> js_error + jsval" where
  "service_startConversation r =
     (case startConversation_try r of
        Inr v \<Rightarrow> Inr v
      | Inl error \<Rightarrow> Inr (JStr defaultGreeting))"

definition await_fetch :: "fetch_result \<Rightarrow> js_error + unit" where
  \<comment> \<open>\<open>await fetch(...)\<close> with the response dropped: only a rejection throws.\<close>
  "await_fetch r = (case r of Rejected \<Rightarrow> Inl NetworkError | Response status b \<Rightarrow> Inr ())"

definition service_endConversation :: "fetch_result \<Rightarrow> js_error + unit" where
  "service_endConversation r =
     (case await_fetch r of Inr u \<Rightarrow> Inr () | Inl error \<Rightarrow> Inr ())"

definition service_clearConversation :: "fetch_result \<Rightarrow> js_error + unit" where
  "service_clearConversation r =
     (case await_fetch r of Inr u \<Rightarrow> Inr () | Inl error \<Rightarrow> Inr ())"

section \<open>Session identity\<close>

definition digit_char :: "nat \<Rightarrow> char" where
  "digit_char d = char_of (48 + d)"

fun digits_of :: "nat \<Rightarrow> string" where
  "digits_of n = (if n < 10 then [digit_char n] else digits_of (n div 10) @ [digit_char (n mod 10)])"

declare digits_of.simps [simp del]

definition numToString :: "int \<Rightarrow> string" where
  \<comment> \<open>How a template literal renders an integer.\<close>
  "numToString i = (if i < 0 then CHR ''-'' # digits_of (nat (- i)) else digits_of (nat i))"

definition isBase36 :: "char \<Rightarrow> bool" where
  \<comment> \<open>The digits of \<open>toString(36)\<close>: \<open>0\<close>..\<open>9\<close> and \<open>a\<close>..\<open>z\<close>.\<close>
  "isBase36 c = (let n = (of_char c :: nat) in (48 \<le> n \<and> n \<le> 57) \<or> (97 \<le> n \<and> n \<le> 122))"

definition generateSessionId :: "int \<Rightarrow> string \<Rightarrow> string" where
  \<comment> \<open>\<open>now\<close> is what \<open>Date.now()\<close> reads and \<open>random36\<close> is the text
      \<open>Math.random().toString(36)\<close>, such as \<open>0.i\<close> for the draw 0.5.\<close>
  "generateSessionId now random36 =
     ''session_'' @ numToString now @ ''_'' @ substr 2 9 random36"

section \<open>The conversation state of the widget\<close>

datatype message_type = User | Ai

record message =
  msg_id :: int
  msg_type :: message_type
  msg_content :: jsval
  msg_timestamp :: string

record conversation =
  messages :: "message list"
  isLoading :: bool
  conversationMode :: bool
  sessionId :: "string option"

definition initial :: conversation where
  "initial = \<lparr>messages = [], isLoading = False, conversationMode = False, sessionId = None\<rparr>"

record clock =
  now :: int
  iso :: string

text \<open>
  A \<^typ>\<open>clock\<close> is one reading of the time: \<open>Date.now()\<close> and
  \<open>new Date().toISOString()\<close>. The hook \<open>useConversation\<close> keeps the four state cells
  of \<^typ>\<open>conversation\<close>; each of its functions is split at its \<open>await\<close> into the part
  that runs at once and the part that runs when the transport client has answered. The
  \<open>context\<close> and \<open>errors\<close> arguments only travel into the request payload and are left
  out, as the payload is.
\<close>

definition apology :: string where
  "apology = ''I'm sorry, I'm having trouble connecting right now. Please try again in a moment.''"

definition sendMessage_sync :: "conversation \<Rightarrow> string \<Rightarrow> clock \<Rightarrow> conversation \<times> string option" where
  \<comment> \<open>\<open>sendMessage\<close> up to its \<open>await\<close>: the state, and the text handed to the service's
      \<open>sendMessage\<close> (which posts it), or \<open>None\<close> when the function has returned before.\<close>
  "sendMessage_sync s content c =
     (if trim content = [] then (s, None)
      else (s\<lparr>messages := messages s @
                  [\<lparr>msg_id = now c, msg_type = User, msg_content = JStr content,
                    msg_timestamp = iso c\<rparr>],
              isLoading := True\<rparr>,
            Some content))"

definition sendMessage_settle :: "conversation \<Rightarrow> js_error + jsval \<Rightarrow> clock \<Rightarrow> conversation" where
  \<comment> \<open>\<open>sendMessage\<close> from its \<open>await\<close> on: \<open>r\<close> is what the service's call gave,
      \<open>Inl\<close> when it threw.\<close>
  "sendMessage_settle s r c =
     (case r of
        Inr response \<Rightarrow>
          s\<lparr>messages := messages s @
                [\<lparr>msg_id = now c + 1, msg_type = Ai, msg_content = response,
                  msg_timestamp = iso c\<rparr>],
            isLoading := False\<rparr>
      | Inl error \<Rightarrow>
          s\<lparr>messages := messages s @
                [\<lparr>msg_id = now c + 1, msg_type = Ai, msg_content = JStr apology,
                  msg_timestamp = iso c\<rparr>],
            isLoading := False\<rparr>)"

record send_env =
  sent_at :: clock
  chat_result :: fetch_result
  settled_at :: clock

definition sendMessage :: "conversation \<Rightarrow> string \<Rightarrow> send_env \<Rightarrow> conversation" where
  \<comment> \<open>One whole call, with nothing else running in between.\<close>
  "sendMessage s content env =
     (case sendMessage_sync s content (sent_at env) of
        (s1, None) \<Rightarrow> s1
      | (s1, Some message) \<Rightarrow>
          sendMessage_settle s1 (service_sendMessage message (chat_result env)) (settled_at env))"

definition sendMessage_via ::
  "(string \<Rightarrow> js_error + jsval) \<Rightarrow> conversation \<Rightarrow> string \<Rightarrow> clock \<Rightarrow> clock \<Rightarrow> conversation" where
  \<comment> \<open>The hook's \<open>sendMessage\<close> with the call it awaits as a parameter: \<open>transport\<close> gives
      what \<open>conversationService.sendMessage\<close> returns for a message, \<open>Inl\<close> when it throws.\<close>
  "sendMessage_via transport s content c1 c2 =
     (case sendMessage_sync s content c1 of
        (s1, None) \<Rightarrow> s1
      | (s1, Some message) \<Rightarrow> sendMessage_settle s1 (transport message) c2)"

definition startConversation_sync :: "conversation \<Rightarrow> conversation" where
  "startConversation_sync s = s\<lparr>isLoading := True\<rparr>"

definition startConversation_settle :: "conversation \<Rightarrow> js_error + jsval \<Rightarrow> clock \<Rightarrow> conversation" where
  "startConversation_settle s r c =
     (case r of
        Inr welcomeMessage \<Rightarrow>
          s\<lparr>messages := [\<lparr>msg_id = now c, msg_type = Ai, msg_content = welcomeMessage,
                           msg_timestamp = iso c\<rparr>],
            conversationMode := True,
            isLoading := False\<rparr>
      | Inl error \<Rightarrow> s\<lparr>isLoading := False\<rparr>)"

definition startConversation :: "conversation \<Rightarrow> fetch_result \<Rightarrow> clock \<Rightarrow> conversation" where
  "startConversation s r c =
     startConversation_settle (startConversation_sync s) (service_startConversation r) c"

definition clearConversation_settle :: "conversation \<Rightarrow> js_error + unit \<Rightarrow> conversation" where
  "clearConversation_settle s r =
     (case r of Inr u \<Rightarrow> s\<lparr>messages := []\<rparr> | Inl error \<Rightarrow> s\<lparr>messages := []\<rparr>)"

definition clearConversation :: "conversation \<Rightarrow> fetch_result \<Rightarrow> conversation" where
  "clearConversation s r = clearConversation_settle s (service_clearConversation r)"

definition endConversation :: "conversation \<Rightarrow> fetch_result \<Rightarrow> conversation" where
  "endConversation s r = (case service_endConversation r of Inr u \<Rightarrow> s | Inl error \<Rightarrow> s)"

definition setConversationMode :: "conversation \<Rightarrow> bool \<Rightarrow> conversation" where
  "setConversationMode s b = s\<lparr>conversationMode := b\<rparr>"

subsection \<open>Histories of the widget\<close>

datatype action =
    SendMessage string send_env
  | StartConversation fetch_result clock
  | ClearConversation fetch_result
  | EndConversation fetch_result
  | SetConversationMode bool

fun perform :: "conversation \<Rightarrow> action \<Rightarrow> conversation" where
  "perform s (SendMessage content env) = sendMessage s content env"
| "perform s (StartConversation r c) = startConversation s r c"
| "perform s (ClearConversation r) = clearConversation s r"
| "perform s (EndConversation r) = endConversation s r"
| "perform s (SetConversationMode b) = setConversationMode s b"

definition history :: "action list \<Rightarrow> conversation" where
  \<comment> \<open>The state after the calls the interface has made since the widget was mounted, each
      settled before the next starts (the input is disabled while \<open>isLoading\<close>).\<close>
  "history acts = foldl perform initial acts"

section \<open>Text: basic facts\<close>

lemma startsWith_prefix: "startsWith s k = prefix k s"
  by (induction s k rule: startsWith.induct) auto

lemma str_includes_sublist: "str_includes s k = sublist k s"
  by (induction s) (simp_all add: startsWith_prefix sublist_Cons_right)

lemma toLowerCase_append: "toLowerCase (p @ q) = toLowerCase p @ toLowerCase q"
  by (simp add: toLowerCase_def)

lemma str_includes_any_case:
  "str_includes (toLowerCase m) k \<longleftrightarrow> (\<exists>p w q. m = p @ w @ q \<and> toLowerCase w = k)"
proof
  assume "str_includes (toLowerCase m) k"
  then obtain ps ss where "map toLowerUnit m = ps @ k @ ss"
    by (auto simp: str_includes_sublist sublist_def toLowerCase_def)
  then obtain p r where m: "m = p @ r" and "k @ ss = map toLowerUnit r"
    by (auto simp: map_eq_append_conv)
  then obtain w q where "r = w @ q" and "k = map toLowerUnit w"
    by (auto simp: append_eq_map_conv)
  with m show "\<exists>p w q. m = p @ w @ q \<and> toLowerCase w = k"
    by (auto simp: toLowerCase_def)
next
  assume "\<exists>p w q. m = p @ w @ q \<and> toLowerCase w = k"
  then show "str_includes (toLowerCase m) k"
    by (auto simp: str_includes_sublist toLowerCase_append)
qed

lemma trim_Nil_iff: "trim s = [] \<longleftrightarrow> (\<forall>c \<in> set s. isWhiteSpace c)"
proof -
  have "dropWhile isWhiteSpace (rev (dropWhile isWhiteSpace s)) = [] \<longleftrightarrow> dropWhile isWhiteSpace s = []"
  proof (cases "dropWhile isWhiteSpace s")
    case Nil
    have "dropWhile isWhiteSpace (rev []) = []" by simp
    with Nil show ?thesis by (simp only: simp_thms)
  next
    case (Cons x xs)
    then have "\<not> isWhiteSpace x" using hd_dropWhile[of isWhiteSpace s] by auto
    with Cons show ?thesis by (auto simp: dropWhile_eq_Nil_conv)
  qed
  then show ?thesis by (simp add: trim_def dropWhile_eq_Nil_conv)
qed

section \<open>The fallback responder\<close>

lemma fallback_not_apology: "getFallbackResponse m \<noteq> apology"
  by (simp add: getFallbackResponse_def Let_def apology_def supportReply_def paymentReply_def
      technicalReply_def featureReply_def bugReply_def genericReply_def)

text \<open>
  C4, as amended. The reply depends on the message text alone. A text that contains
  \<open>billing\<close> in any letter case, and neither \<open>help\<close> nor \<open>support\<close>, gets the
  payment-troubleshoot reply; a text that contains no keyword of the rule table gets the
  generic acknowledgment; and in every case the reply is that of the earliest rule of the
  table (help/support, payment/billing, error/problem, feature/request, bug/issue) one of
  whose keywords occurs in the lowered text.
\<close>

theorem getFallbackResponse_rules:
  "(str_includes (toLowerCase m) ''billing'' \<and> \<not> str_includes (toLowerCase m) ''help''
      \<and> \<not> str_includes (toLowerCase m) ''support'' \<longrightarrow> getFallbackResponse m = paymentReply)
   \<and> ((\<forall>k \<in> set rule_keywords. \<not> str_includes (toLowerCase m) k) \<longrightarrow>
        getFallbackResponse m = genericReply)
   \<and> getFallbackResponse m = first_match_reply m"
  by (simp add: getFallbackResponse_def first_match_reply_def rule_table_def rule_matches_def
      Let_def rule_keywords_def)

theorem getFallbackResponse_rules_witness:
  "str_includes (toLowerCase ''My BILLING question'') ''billing''
   \<and> \<not> str_includes (toLowerCase ''My BILLING question'') ''help''
   \<and> \<not> str_includes (toLowerCase ''My BILLING question'') ''support''
   \<and> getFallbackResponse ''My BILLING question'' = paymentReply
   \<and> list_all (\<lambda>k. \<not> str_includes (toLowerCase ''hello'') k) rule_keywords
   \<and> getFallbackResponse ''hello'' = genericReply"
proof -
  have h1: "str_includes (toLowerCase ''My BILLING question'') ''billing''
     \<and> \<not> str_includes (toLowerCase ''My BILLING question'') ''help''
     \<and> \<not> str_includes (toLowerCase ''My BILLING question'') ''support''" by code_simp
  have h2: "\<forall>k \<in> set rule_keywords. \<not> str_includes (toLowerCase ''hello'') k" by code_simp
  have c1: "getFallbackResponse ''My BILLING question'' = paymentReply"
    using h1 getFallbackResponse_rules [of "''My BILLING question''"] by blast
  have c2: "getFallbackResponse ''hello'' = genericReply"
    using h2 getFallbackResponse_rules [of "''hello''"] by blast
  have h3: "list_all (\<lambda>k. \<not> str_includes (toLowerCase ''hello'') k) rule_keywords"
    using h2 by (simp only: list_all_iff)
  show ?thesis using h1 h3 c1 c2 by blast
qed

text \<open>
  The text \<open>Help with BILLING\<close> contains \<open>billing\<close>, and its reply is the support offer,
  the reply of the earlier rule, not the payment-troubleshoot reply.
\<close>

theorem getFallbackResponse_billing_counterexample:
  "str_includes (toLowerCase ''Help with BILLING'') ''billing''
   \<and> getFallbackResponse ''Help with BILLING'' = supportReply
   \<and> getFallbackResponse ''Help with BILLING'' \<noteq> paymentReply"
  by code_simp

section \<open>The transport client\<close>

lemma sendMessage_try_failed: "fetch_failed r \<Longrightarrow> \<exists>e. sendMessage_try m r = Inl e"
  by (cases r) (auto simp: sendMessage_try_def)




text \<open>
  C2, as amended. On a status outside the success range the \<open>try\<close> block of the service's
  \<open>sendMessage\<close> throws an error that carries the status; the function's own \<open>catch\<close>
  takes it, and the caller is returned \<open>getFallbackResponse(message)\<close>.
\<close>

theorem service_sendMessage_http_error_caught:
  assumes "\<not> ok status"
  shows "sendMessage_try m (Response status b) = Inl (HttpError status)
    \<and> service_sendMessage m (Response status b) = Inr (JStr (getFallbackResponse m))"
  using assms by (simp add: sendMessage_try_def service_sendMessage_def)

theorem service_sendMessage_http_error_caught_witness:
  "\<not> ok 500
   \<and> sendMessage_try ''help'' (Response 500 Malformed) = Inl (HttpError 500)
   \<and> service_sendMessage ''help'' (Response 500 Malformed) = Inr (JStr (getFallbackResponse ''help''))"
proof -
  have h: "\<not> ok 500" by (simp add: ok_def)
  show ?thesis using h service_sendMessage_http_error_caught [OF h] by simp
qed

text \<open>
  On status 500 the call for the message \<open>hello\<close> returns the generic acknowledgment; it
  does not fail with the error that carries the status.
\<close>

theorem service_sendMessage_http_error_counterexample:
  "\<not> ok 500
   \<and> service_sendMessage ''hello'' (Response 500 (Parsed (JObj []))) = Inr (JStr genericReply)
   \<and> service_sendMessage ''hello'' (Response 500 (Parsed (JObj []))) \<noteq> Inl (HttpError 500)"
  by code_simp

text \<open>
  C9, as amended. On a response with a status in the success range whose body parses to
  a value other than \<open>null\<close>, the service's \<open>sendMessage\<close> returns the body's
  \<open>response\<close> field when that field is truthy (present, and not an empty string, zero,
  \<open>false\<close> or \<open>null\<close>); otherwise the \<open>message\<close> field when that one is truthy; otherwise
  the fixed "could not process" string.
\<close>

theorem service_sendMessage_reply_chain:
  assumes "ok status" and "data \<noteq> JNull" and "data \<noteq> JUndefined"
  shows "service_sendMessage m (Response status (Parsed data)) =
     Inr (if truthy (member data ''response'') then member data ''response''
          else if truthy (member data ''message'') then member data ''message''
          else JStr couldNotProcess)"
  using assms by (simp add: service_sendMessage_def sendMessage_try_def getProp_def)

theorem service_sendMessage_reply_chain_witness:
  "ok 200
   \<and> service_sendMessage ''it's broken''
        (Response 200 (Parsed (JObj [(''response'', JStr ''Try restarting.'')])))
      = Inr (JStr ''Try restarting.'')"
proof -
  have h: "ok 200" by (simp add: ok_def)
  show ?thesis
    using h service_sendMessage_reply_chain
      [OF h, of "JObj [(''response'', JStr ''Try restarting.'')]" "''it's broken''"]
    by simp
qed

text \<open>
  The body \<open>{"response": ""}\<close> has a \<open>response\<close> field, the empty string; the call returns
  the fixed "could not process" string, which is neither that field nor a case where both
  fields are absent.
\<close>

theorem service_sendMessage_reply_counterexample:
  "ok 200
   \<and> member (JObj [(''response'', JStr '''')]) ''response'' = JStr ''''
   \<and> service_sendMessage ''hi'' (Response 200 (Parsed (JObj [(''response'', JStr '''')])))
     = Inr (JStr couldNotProcess)"
  by code_simp

section \<open>The conversation state machine\<close>

lemma sendMessage_sync_nonempty:
  "trim content \<noteq> [] \<Longrightarrow>
   sendMessage_sync s content c =
     (s\<lparr>messages := messages s @
            [\<lparr>msg_id = now c, msg_type = User, msg_content = JStr content, msg_timestamp = iso c\<rparr>],
        isLoading := True\<rparr>, Some content)"
  by (simp add: sendMessage_sync_def)

lemma sendMessage_sync_blank: "trim content = [] \<Longrightarrow> sendMessage_sync s content c = (s, None)"
  by (simp add: sendMessage_sync_def)

lemma sendMessage_settle_messages:
  "\<exists>a. msg_type a = Ai \<and> messages (sendMessage_settle s r c) = messages s @ [a]"
  by (cases r) (simp_all add: sendMessage_settle_def)

lemma sendMessage_settle_flags:
  "isLoading (sendMessage_settle s r c) = False
   \<and> conversationMode (sendMessage_settle s r c) = conversationMode s"
  by (cases r) (simp_all add: sendMessage_settle_def)

lemma sendMessage_idle: "\<not> isLoading s \<Longrightarrow> \<not> isLoading (sendMessage s content env)"
  by (cases "trim content = []")
     (simp_all add: sendMessage_def sendMessage_sync_def sendMessage_settle_flags)

lemma startConversation_idle: "\<not> isLoading (startConversation s r c)"
  by (simp add: startConversation_def startConversation_settle_def split: sum.splits)

lemma perform_idle: "\<not> isLoading s \<Longrightarrow> \<not> isLoading (perform s a)"
  by (cases a)
     (simp_all add: sendMessage_idle startConversation_idle clearConversation_def
        clearConversation_settle_def endConversation_def setConversationMode_def split: sum.splits)

lemma foldl_perform_idle: "\<not> isLoading s \<Longrightarrow> \<not> isLoading (foldl perform s acts)"
  by (induction acts arbitrary: s) (simp_all add: perform_idle)

lemma history_idle: "\<not> isLoading (history acts)"
  by (simp add: history_def foldl_perform_idle initial_def)

text \<open>
  C1. Let the state be the one reached by any history of settled calls, and let the
  trimmed content be non-empty. Then \<open>isLoading\<close> is false before the call; the part of
  \<open>sendMessage\<close> that runs before the request is made appends exactly one user message
  with the content; once the call has settled the messages are the earlier ones followed
  by that user message and exactly one assistant message; and \<open>isLoading\<close> is false again.
\<close>

theorem sendMessage_appends_user_then_assistant:
  assumes "trim content \<noteq> []"
  shows "\<not> isLoading (history acts)
    \<and> (\<exists>u a. msg_type u = User \<and> msg_content u = JStr content \<and> msg_type a = Ai
          \<and> sendMessage_sync (history acts) content (sent_at env) =
              ((history acts)\<lparr>messages := messages (history acts) @ [u], isLoading := True\<rparr>,
               Some content)
          \<and> messages (sendMessage (history acts) content env) = messages (history acts) @ [u, a])
    \<and> \<not> isLoading (sendMessage (history acts) content env)"
proof -
  let ?s = "history acts"
  let ?u = "\<lparr>msg_id = now (sent_at env), msg_type = User, msg_content = JStr content,
             msg_timestamp = iso (sent_at env)\<rparr>"
  let ?s1 = "?s\<lparr>messages := messages ?s @ [?u], isLoading := True\<rparr>"
  have sync: "sendMessage_sync ?s content (sent_at env) = (?s1, Some content)"
    using assms by (rule sendMessage_sync_nonempty)
  then have whole: "sendMessage ?s content env =
      sendMessage_settle ?s1 (service_sendMessage content (chat_result env)) (settled_at env)"
    by (simp add: sendMessage_def)
  obtain a where a: "msg_type a = Ai"
      "messages (sendMessage ?s content env) = messages ?s1 @ [a]"
    using sendMessage_settle_messages whole by metis
  have "messages (sendMessage ?s content env) = messages ?s @ [?u, a]"
    using a(2) by simp
  with a(1) sync have "\<exists>u a. msg_type u = User \<and> msg_content u = JStr content \<and> msg_type a = Ai
          \<and> sendMessage_sync ?s content (sent_at env) =
              (?s\<lparr>messages := messages ?s @ [u], isLoading := True\<rparr>, Some content)
          \<and> messages (sendMessage ?s content env) = messages ?s @ [u, a]"
    by (intro exI[of _ ?u] exI[of _ a]) simp
  moreover have "\<not> isLoading (sendMessage ?s content env)"
    using whole sendMessage_settle_flags by simp
  ultimately show ?thesis using history_idle by blast
qed

theorem sendMessage_appends_user_then_assistant_witness:
  "trim ''hello'' \<noteq> []
   \<and> length (messages (sendMessage (history []) ''hello''
        \<lparr>sent_at = \<lparr>now = 1000, iso = ''t0''\<rparr>, chat_result = Rejected,
          settled_at = \<lparr>now = 1005, iso = ''t1''\<rparr>\<rparr>)) = 2
   \<and> \<not> isLoading (sendMessage (history []) ''hello''
        \<lparr>sent_at = \<lparr>now = 1000, iso = ''t0''\<rparr>, chat_result = Rejected,
          settled_at = \<lparr>now = 1005, iso = ''t1''\<rparr>\<rparr>)"
proof -
  have h: "trim ''hello'' \<noteq> []" by code_simp
  have e: "messages (history []) = []" by (simp add: history_def initial_def)
  show ?thesis
    using h e sendMessage_appends_user_then_assistant [OF h, of "[]"
        "\<lparr>sent_at = \<lparr>now = 1000, iso = ''t0''\<rparr>, chat_result = Rejected,
          settled_at = \<lparr>now = 1005, iso = ''t1''\<rparr>\<rparr>"]
    by auto
qed

text \<open>
  C5. When the content is empty or has white space only, \<open>sendMessage\<close> returns before
  anything is handed to the transport client, and the state after the call (the messages,
  \<open>isLoading\<close> and every other field) is the state before it.
\<close>

theorem sendMessage_blank_noop:
  assumes "\<forall>c \<in> set content. isWhiteSpace c"
  shows "sendMessage_sync s content c = (s, None) \<and> sendMessage s content env = s"
  using assms by (simp add: sendMessage_def sendMessage_sync_blank trim_Nil_iff)

theorem sendMessage_blank_noop_witness:
  "list_all isWhiteSpace ''  ''
   \<and> sendMessage initial ''  ''
        \<lparr>sent_at = \<lparr>now = 1000, iso = ''t0''\<rparr>, chat_result = Rejected,
          settled_at = \<lparr>now = 1005, iso = ''t1''\<rparr>\<rparr> = initial"
proof -
  have h: "\<forall>c \<in> set ''  ''. isWhiteSpace c" by code_simp
  show ?thesis using h sendMessage_blank_noop [OF h] by (simp add: list_all_iff)
qed

lemma sendMessage_via_service:
  "sendMessage s content env =
     sendMessage_via (\<lambda>m. service_sendMessage m (chat_result env)) s content
       (sent_at env) (settled_at env)"
  by (simp add: sendMessage_def sendMessage_via_def)

lemma sendMessage_fetch_failure_fallback:
  assumes "trim content \<noteq> []" and "fetch_failed (chat_result env)"
  shows "messages (sendMessage s content env) =
      messages s @
        [\<lparr>msg_id = now (sent_at env), msg_type = User, msg_content = JStr content,
          msg_timestamp = iso (sent_at env)\<rparr>,
         \<lparr>msg_id = now (settled_at env) + 1, msg_type = Ai,
          msg_content = JStr (getFallbackResponse content),
          msg_timestamp = iso (settled_at env)\<rparr>]"
proof -
  have "service_sendMessage content (chat_result env) = Inr (JStr (getFallbackResponse content))"
    using assms(2) sendMessage_try_failed[of "chat_result env" content]
    by (auto simp: service_sendMessage_def)
  then show ?thesis
    using assms(1)
    by (simp add: sendMessage_def sendMessage_sync_def sendMessage_settle_def)
qed

text \<open>
  C3. When the content is not blank and the call that the state machine's \<open>sendMessage\<close>
  makes to the transport client fails, that is, throws to it, the state machine appends
  after the user message an assistant message that holds the fixed apology text, and
  \<open>isLoading\<close> is false afterwards.
\<close>

theorem sendMessage_transport_raises_apology:
  assumes "trim content \<noteq> []" and "transport content = Inl e"
  shows "messages (sendMessage_via transport s content c1 c2) =
      messages s @
        [\<lparr>msg_id = now c1, msg_type = User, msg_content = JStr content,
          msg_timestamp = iso c1\<rparr>,
         \<lparr>msg_id = now c2 + 1, msg_type = Ai,
          msg_content =
            JStr ''I'm sorry, I'm having trouble connecting right now. Please try again in a moment.'',
          msg_timestamp = iso c2\<rparr>]
    \<and> \<not> isLoading (sendMessage_via transport s content c1 c2)"
  using assms
  by (simp add: sendMessage_via_def sendMessage_sync_def sendMessage_settle_def apology_def)

theorem sendMessage_transport_raises_apology_witness:
  "trim ''hello'' \<noteq> []
   \<and> map msg_content (messages (sendMessage_via (\<lambda>m. Inl NetworkError) initial ''hello''
        \<lparr>now = 1000, iso = ''t0''\<rparr> \<lparr>now = 1005, iso = ''t1''\<rparr>)) =
       [JStr ''hello'', JStr apology]
   \<and> \<not> isLoading (sendMessage_via (\<lambda>m. Inl NetworkError) initial ''hello''
        \<lparr>now = 1000, iso = ''t0''\<rparr> \<lparr>now = 1005, iso = ''t1''\<rparr>)"
proof -
  have h1: "trim ''hello'' \<noteq> []" by code_simp
  have h2: "(\<lambda>m. Inl NetworkError :: js_error + jsval) ''hello'' = Inl NetworkError" by simp
  show ?thesis
    using h1 sendMessage_transport_raises_apology
      [OF h1 h2, of initial "\<lparr>now = 1000, iso = ''t0''\<rparr>" "\<lparr>now = 1005, iso = ''t1''\<rparr>"]
    by (simp add: initial_def apology_def)
qed

text \<open>
  C6. Whatever the state before and whatever the remote clear call gives (a response of
  any status, or a network failure), \<open>clearConversation\<close> ends with no messages; so does
  its continuation on either result of the transport client, thrown or returned.
\<close>

theorem clearConversation_empties:
  "messages (clearConversation s r) = [] \<and> messages (clearConversation_settle s x) = []"
  by (simp add: clearConversation_def clearConversation_settle_def split: sum.splits)

theorem clearConversation_empties_witness:
  "messages (clearConversation
      (initial\<lparr>messages := [\<lparr>msg_id = 1, msg_type = User, msg_content = JStr ''hi'',
                               msg_timestamp = ''t''\<rparr>]\<rparr>)
      Rejected) = []"
  using clearConversation_empties
    [of "initial\<lparr>messages := [\<lparr>msg_id = 1, msg_type = User, msg_content = JStr ''hi'',
                                 msg_timestamp = ''t''\<rparr>]\<rparr>" Rejected]
  by simp

text \<open>
  C7. Whatever the messages before and whatever the remote start call gives,
  \<open>startConversation\<close> ends with exactly one message, an assistant message that holds the
  welcome text the transport client returned, with \<open>conversationMode\<close> true and
  \<open>isLoading\<close> false; when the remote call fails the welcome text is the default greeting.
\<close>

theorem startConversation_single_welcome:
  "\<exists>w. service_startConversation r = Inr w
     \<and> messages (startConversation s r c) =
         [\<lparr>msg_id = now c, msg_type = Ai, msg_content = w, msg_timestamp = iso c\<rparr>]
     \<and> conversationMode (startConversation s r c)
     \<and> \<not> isLoading (startConversation s r c)
     \<and> (fetch_failed r \<longrightarrow> w = JStr defaultGreeting)"
proof -
  have "\<exists>w. service_startConversation r = Inr w"
    by (simp add: service_startConversation_def split: sum.splits)
  then obtain w where w: "service_startConversation r = Inr w" ..
  have "fetch_failed r \<Longrightarrow> w = JStr defaultGreeting"
    using w by (cases r)
      (auto simp: service_startConversation_def startConversation_try_def split: if_splits)
  with w show ?thesis
    by (auto simp: startConversation_def startConversation_settle_def startConversation_sync_def)
qed

theorem startConversation_single_welcome_witness:
  "fetch_failed Rejected
   \<and> messages (startConversation initial Rejected \<lparr>now = 1000, iso = ''t0''\<rparr>) =
       [\<lparr>msg_id = 1000, msg_type = Ai,
         msg_content = JStr ''Hello! I'm your AI assistant. How can I help you today?'',
         msg_timestamp = ''t0''\<rparr>]
   \<and> conversationMode (startConversation initial Rejected \<lparr>now = 1000, iso = ''t0''\<rparr>)"
  using startConversation_single_welcome [of Rejected initial "\<lparr>now = 1000, iso = ''t0''\<rparr>"]
  by (auto simp: defaultGreeting_def)

section \<open>Session identity: the form of the value\<close>

lemma digits_of_not_Nil: "digits_of n \<noteq> []"
  by (subst digits_of.simps) simp

lemma of_char_digit_char: "d < 10 \<Longrightarrow> (of_char (digit_char d) :: nat) = 48 + d"
  unfolding digit_char_def of_char_of by (rule mod_less) simp

lemma digit_char_inj:
  assumes "a < 10" and "b < 10" and "digit_char a = digit_char b"
  shows "a = b"
proof -
  from assms(3) have "(of_char (digit_char a) :: nat) = of_char (digit_char b)"
    by (simp only:)
  then have "48 + a = 48 + b"
    by (simp only: of_char_digit_char[OF assms(1)] of_char_digit_char[OF assms(2)])
  then show ?thesis by (simp only: add_left_cancel)
qed

lemma digits_of_range: "c \<in> set (digits_of n) \<Longrightarrow> 48 \<le> (of_char c :: nat) \<and> (of_char c :: nat) \<le> 57"
proof (induction n rule: digits_of.induct)
  case (1 n)
  show ?case
  proof (cases "n < 10")
    case True
    with "1.prems" have "c = digit_char n" by (subst (asm) digits_of.simps) simp
    with True show ?thesis by (simp add: of_char_digit_char)
  next
    case False
    with "1.prems" have "c \<in> set (digits_of (n div 10)) \<or> c = digit_char (n mod 10)"
      by (subst (asm) digits_of.simps) auto
    then show ?thesis
    proof
      assume "c \<in> set (digits_of (n div 10))"
      with False "1.IH" show ?thesis by simp
    next
      assume "c = digit_char (n mod 10)"
      then show ?thesis by (simp add: of_char_digit_char)
    qed
  qed
qed

lemma digits_of_inj: "digits_of a = digits_of b \<Longrightarrow> a = b"
proof (induction a arbitrary: b rule: digits_of.induct)
  case (1 a)
  show ?case
  proof (cases "a < 10")
    case a: True
    show ?thesis
    proof (cases "b < 10")
      case True
      have "digits_of a = [digit_char a]" "digits_of b = [digit_char b]"
        using a True by (subst digits_of.simps, simp)+
      with "1.prems" have "digit_char a = digit_char b" by simp
      with a True show ?thesis by (rule digit_char_inj)
    next
      case False
      have "digits_of b = digits_of (b div 10) @ [digit_char (b mod 10)]"
        using False by (subst digits_of.simps) simp
      moreover have "digits_of a = [digit_char a]"
        using a by (subst digits_of.simps) simp
      ultimately show ?thesis using "1.prems" digits_of_not_Nil[of "b div 10"] by simp
    qed
  next
    case a: False
    have da: "digits_of a = digits_of (a div 10) @ [digit_char (a mod 10)]"
      using a by (subst digits_of.simps) simp
    show ?thesis
    proof (cases "b < 10")
      case True
      then have "digits_of b = [digit_char b]" by (subst digits_of.simps) simp
      with da "1.prems" digits_of_not_Nil[of "a div 10"] show ?thesis by simp
    next
      case False
      then have db: "digits_of b = digits_of (b div 10) @ [digit_char (b mod 10)]"
        by (subst digits_of.simps) simp
      from da db "1.prems" have eq: "digits_of (a div 10) = digits_of (b div 10)"
        and last: "digit_char (a mod 10) = digit_char (b mod 10)" by simp_all
      from "1.IH"[OF a eq] have "a div 10 = b div 10" .
      moreover from last have "a mod 10 = b mod 10" by (intro digit_char_inj) simp_all
      ultimately show ?thesis by (metis div_mult_mod_eq)
    qed
  qed
qed

lemma minus_not_digit: "CHR ''-'' \<notin> set (digits_of n)"
  using digits_of_range[of "CHR ''-''" n] by auto

lemma underscore_not_in_numToString: "CHR ''_'' \<notin> set (numToString i)"
  using digits_of_range[of "CHR ''_''"] by (auto simp: numToString_def)

lemma numToString_inj: "numToString i = numToString j \<Longrightarrow> i = j"
proof -
  assume eq: "numToString i = numToString j"
  have neg: False if "CHR ''-'' # digits_of m = digits_of n" for m n
  proof -
    from that have "CHR ''-'' \<in> set (digits_of n)" by (metis list.set_intros(1))
    then show False using minus_not_digit by simp
  qed
  show "i = j"
  proof (cases "i < 0")
    case i: True
    show ?thesis
    proof (cases "j < 0")
      case True
      with i eq have "digits_of (nat (- i)) = digits_of (nat (- j))" by (simp add: numToString_def)
      then have "nat (- i) = nat (- j)" by (rule digits_of_inj)
      with i True show ?thesis by simp
    next
      case False
      with i eq neg show ?thesis by (simp add: numToString_def)
    qed
  next
    case i: False
    show ?thesis
    proof (cases "j < 0")
      case True
      with i eq neg[of "nat (- j)" "nat i"] show ?thesis by (simp add: numToString_def)
    next
      case False
      with i eq have "digits_of (nat i) = digits_of (nat j)" by (simp add: numToString_def)
      then have "nat i = nat j" by (rule digits_of_inj)
      with i False show ?thesis by simp
    qed
  qed
qed

lemma split_at_separator:
  "x \<notin> set p \<Longrightarrow> x \<notin> set q \<Longrightarrow> p @ x # s = q @ x # t \<Longrightarrow> p = q \<and> s = t"
proof (induction p arbitrary: q)
  case Nil
  then show ?case by (cases q) auto
next
  case (Cons a p)
  then show ?case by (cases q) auto
qed

lemma generateSessionId_eq_iff:
  "generateSessionId n1 r1 = generateSessionId n2 r2 \<longleftrightarrow> n1 = n2 \<and> substr 2 9 r1 = substr 2 9 r2"
proof
  assume "generateSessionId n1 r1 = generateSessionId n2 r2"
  then have "numToString n1 @ CHR ''_'' # substr 2 9 r1 = numToString n2 @ CHR ''_'' # substr 2 9 r2"
    by (simp add: generateSessionId_def)
  then have "numToString n1 = numToString n2 \<and> substr 2 9 r1 = substr 2 9 r2"
    using underscore_not_in_numToString by (intro split_at_separator) auto
  then show "n1 = n2 \<and> substr 2 9 r1 = substr 2 9 r2"
    using numToString_inj by blast
next
  assume "n1 = n2 \<and> substr 2 9 r1 = substr 2 9 r2"
  then show "generateSessionId n1 r1 = generateSessionId n2 r2"
    by (simp add: generateSessionId_def)
qed

lemma generateSessionId_distinct:
  "distinct (map (\<lambda>(n, r). (n, substr 2 9 r)) calls) \<Longrightarrow>
   distinct (map (\<lambda>(n, r). generateSessionId n r) calls)"
proof (induction calls)
  case Nil
  then show ?case by simp
next
  case (Cons c calls)
  obtain n r where c: "c = (n, r)" by (cases c)
  have "generateSessionId n r \<notin> (\<lambda>(n, r). generateSessionId n r) ` set calls"
  proof
    assume "generateSessionId n r \<in> (\<lambda>(n, r). generateSessionId n r) ` set calls"
    then obtain n' r' where "(n', r') \<in> set calls" "generateSessionId n r = generateSessionId n' r'"
      by auto
    then have "(n, substr 2 9 r) \<in> (\<lambda>(n, r). (n, substr 2 9 r)) ` set calls"
      by (force simp: generateSessionId_eq_iff)
    with Cons.prems c show False by simp
  qed
  with Cons c show ?case by simp
qed


text \<open>
  C8, as amended. Every value that \<open>generateSessionId\<close> returns has the form
  \<open>session_<epoch-millis>_<suffix>\<close>, where the suffix is made of at most 9 characters:
  the first 9 that follow \<open>0.\<close> in the base-36 rendering of the random draw (exactly 9
  when the rendering has that many, fewer otherwise), base-36 digits when the rendering's
  are. Two calls return the same value exactly when they read the same millisecond and get
  the same suffix; so calls whose pairs of clock reading and suffix are pairwise different,
  however many, return pairwise different values.
\<close>

theorem generateSessionId_format_and_distinct:
  "(\<exists>sfx. generateSessionId millis r = ''session_'' @ numToString millis @ ''_'' @ sfx
       \<and> length sfx \<le> 9
       \<and> (11 \<le> length r \<longrightarrow> length sfx = 9)
       \<and> (list_all isBase36 (drop 2 r) \<longrightarrow> list_all isBase36 sfx))
   \<and> (generateSessionId n1 r1 = generateSessionId n2 r2 \<longleftrightarrow> n1 = n2 \<and> substr 2 9 r1 = substr 2 9 r2)
   \<and> (distinct (map (\<lambda>(n, r). (n, substr 2 9 r)) calls) \<longrightarrow>
        distinct (map (\<lambda>(n, r). generateSessionId n r) calls))"
proof -
  have "list_all isBase36 (drop 2 r) \<Longrightarrow> list_all isBase36 (substr 2 9 r)"
    by (auto simp: substr_def list_all_iff dest: in_set_takeD)
  then have "generateSessionId millis r = ''session_'' @ numToString millis @ ''_'' @ substr 2 9 r
       \<and> length (substr 2 9 r) \<le> 9
       \<and> (11 \<le> length r \<longrightarrow> length (substr 2 9 r) = 9)
       \<and> (list_all isBase36 (drop 2 r) \<longrightarrow> list_all isBase36 (substr 2 9 r))"
    by (auto simp: generateSessionId_def substr_def)
  then show ?thesis
    using generateSessionId_eq_iff generateSessionId_distinct by blast
qed

theorem generateSessionId_format_and_distinct_witness:
  "list_all isBase36 (drop 2 ''0.4fzyo82mvyr'')
   \<and> 11 \<le> length ''0.4fzyo82mvyr''
   \<and> generateSessionId 1700000000000 ''0.4fzyo82mvyr'' = ''session_1700000000000_4fzyo82mv''
   \<and> distinct (map (\<lambda>(n, r). (n, substr 2 9 r))
         [(1700000000000, ''0.4fzyo82mvyr''), (1700000000000, ''0.8ab3kz01qxy'')])
   \<and> distinct (map (\<lambda>(n, r). generateSessionId n r)
         [(1700000000000, ''0.4fzyo82mvyr''), (1700000000000, ''0.8ab3kz01qxy'')])"
proof -
  have h1: "list_all isBase36 (drop 2 ''0.4fzyo82mvyr'')" by code_simp
  have h2: "11 \<le> length ''0.4fzyo82mvyr''" by simp
  have h3: "distinct (map (\<lambda>(n, r). (n, substr 2 9 r))
         [(1700000000000, ''0.4fzyo82mvyr''), (1700000000000, ''0.8ab3kz01qxy'')])"
    by (simp add: substr_def)
  have g: "generateSessionId 1700000000000 ''0.4fzyo82mvyr'' = ''session_1700000000000_4fzyo82mv''"
    by (simp add: generateSessionId_def substr_def numToString_def digits_of.simps digit_char_def
        char_of_def bit_numeral_simps bit_0 bit_Suc)
  have d: "distinct (map (\<lambda>(n, r). generateSessionId n r)
         [(1700000000000, ''0.4fzyo82mvyr''), (1700000000000, ''0.8ab3kz01qxy'')])"
    using h3 generateSessionId_format_and_distinct
      [where calls = "[(1700000000000, ''0.4fzyo82mvyr''), (1700000000000, ''0.8ab3kz01qxy'')]"]
    by blast
  show ?thesis using h1 h2 h3 g d by blast
qed

text \<open>
  For the draw 0.5, whose base-36 rendering is \<open>0.i\<close>, the suffix has one character; and
  two draws in the same millisecond whose renderings agree on their first 9 digits give
  the same value.
\<close>

theorem generateSessionId_short_suffix_counterexample:
  "generateSessionId 1700000000000 ''0.i'' = ''session_1700000000000_i''
   \<and> length (substr 2 9 ''0.i'') < 9
   \<and> ''0.4fzyo82mvyr'' \<noteq> ''0.4fzyo82mvzz''
   \<and> generateSessionId 1700000000000 ''0.4fzyo82mvyr'' = generateSessionId 1700000000000 ''0.4fzyo82mvzz''"
  by (simp add: generateSessionId_def substr_def numToString_def digits_of.simps digit_char_def
      char_of_def bit_numeral_simps bit_0 bit_Suc)

end
